theory Spec2Isabelle
  imports Complex_Main "HOL-Library.Word"
begin

section \<open>The EventRoom association use case\<close>

text \<open>
  The C# sources of the EventRoom feature: the \<open>EventRoom\<close> entity, its transfer
  objects, \<open>EventRoomUseCase\<close> with its four methods, \<open>EventRoomRepository\<close> and the
  AutoMapper profile.  The use case receives its repositories and the unit of work through
  its constructor; here they are the fields of a record of functions over a store \<open>'s\<close>, so
  that every method of the use case is translated once, for every implementation of the
  interfaces (the unit tests run it against mocks).

  A \<open>Guid\<close> is a 128-bit value.  An \<open>int\<close> of the source is an integer here: the use case
  only compares such values and takes the ceiling of one quotient, whose magnitude is at
  most that of the count, so no value leaves the 32-bit range by the use case's own
  arithmetic.
\<close>

type_synonym guid = "128 word"

subsection \<open>Entities and transfer objects\<close>

text \<open>
  \<open>Event\<close> and \<open>Room\<close> are declared elsewhere; the sources use their \<open>Id\<close> and \<open>Name\<close>
  (\<open>new Event { Id = eventId, Name = "Tech Conference" }\<close>).  The audit fields that
  \<open>EventRoom\<close> inherits from \<open>BaseEntity\<close> are not read by any method below; its \<open>Id\<close>
  is, by the listing (\<open>orderBy: er => er.Id\<close>).  A navigation property that is not loaded
  is \<open>null\<close>, here \<open>None\<close>.
\<close>

record Event =
  Event_Id :: guid
  Event_Name :: string

record Room =
  Room_Id :: guid
  Room_Name :: string

record EventRoom =
  EventRoom_Id :: guid
  EventRoom_EventId :: guid
  EventRoom_RoomId :: guid
  EventRoom_Event :: "Event option"
  EventRoom_Room :: "Room option"

record EventDTO =
  EventDTO_Id :: guid
  EventDTO_Name :: string

record RoomDTO =
  RoomDTO_Id :: guid
  RoomDTO_Name :: string

record EventRoomDTO =
  EventRoomDTO_Id :: guid
  EventRoomDTO_EventId :: guid
  EventRoomDTO_RoomId :: guid
  EventRoomDTO_Event :: "EventDTO option"
  EventRoomDTO_Room :: "RoomDTO option"

record CreateEventRoomDTO =
  CreateEventRoomDTO_EventId :: guid
  CreateEventRoomDTO_RoomId :: guid

record EventRoomFilterDTO =
  EventRoomFilterDTO_EventId :: "guid option"
  EventRoomFilterDTO_RoomId :: "guid option"
  EventRoomFilterDTO_PageNumber :: int
  EventRoomFilterDTO_PageSize :: int

record 'a PaginatedResultDTO =
  Items :: "'a list"
  PageIndex :: int
  PageSize :: int
  TotalCount :: int
  TotalPages :: int
  HasPreviousPage :: bool
  HasNextPage :: bool

datatype exn = NotFoundException string | ConflictException string

text \<open>The navigation properties an \<open>include\<close> argument names.\<close>

datatype navigation = Nav_Event | Nav_Room

subsection \<open>The AutoMapper profile\<close>

text \<open>
  \<open>CreateMap<EventRoom, EventRoomDTO>()\<close> copies the members of the same name and maps
  \<open>Event\<close> and \<open>Room\<close> from the navigation properties.  AutoMapper maps a \<open>null\<close> source
  to \<open>null\<close>, which is \<open>Map_nullable\<close>.
\<close>

definition Map_EventDTO :: "Event \<Rightarrow> EventDTO" where
  "Map_EventDTO e = \<lparr>EventDTO_Id = Event_Id e, EventDTO_Name = Event_Name e\<rparr>"

definition Map_RoomDTO :: "Room \<Rightarrow> RoomDTO" where
  "Map_RoomDTO r = \<lparr>RoomDTO_Id = Room_Id r, RoomDTO_Name = Room_Name r\<rparr>"

definition Map_EventRoomDTO :: "EventRoom \<Rightarrow> EventRoomDTO" where
  "Map_EventRoomDTO src =
     \<lparr>EventRoomDTO_Id = EventRoom_Id src,
      EventRoomDTO_EventId = EventRoom_EventId src,
      EventRoomDTO_RoomId = EventRoom_RoomId src,
      EventRoomDTO_Event = map_option Map_EventDTO (EventRoom_Event src),
      EventRoomDTO_Room = map_option Map_RoomDTO (EventRoom_Room src)\<rparr>"

definition Map_nullable :: "EventRoom option \<Rightarrow> EventRoomDTO option" where
  "Map_nullable src = map_option Map_EventRoomDTO src"

subsection \<open>Arithmetic of the page count\<close>

text \<open>
  \<open>(int)Math.Ceiling(totalCount / (double)filterDto.PageSize)\<close> divides in \<open>double\<close>.
  Both operands are 32-bit integers, which a \<open>double\<close> holds exactly; the quotient of two
  such values, rounded to a \<open>double\<close>, never crosses an integer, so its ceiling is the
  ceiling of the exact quotient, kept here as a rational.  Division by zero does not
  raise in \<open>double\<close>: it yields an infinity, or NaN for \<open>0 / 0\<close>.  The unchecked conversion
  of an infinity or NaN to \<open>int\<close> yields a value the language leaves unspecified; it is
  the parameter \<open>u\<close>.
\<close>

datatype double = Finite rat | PositiveInfinity | NegativeInfinity | NaN

definition divide_double :: "int \<Rightarrow> int \<Rightarrow> double" where
  "divide_double a b =
     (if b \<noteq> 0 then Finite (of_int a / of_int b)
      else if 0 < a then PositiveInfinity
      else if a < 0 then NegativeInfinity
      else NaN)"

fun Math_Ceiling :: "double \<Rightarrow> double" where
  "Math_Ceiling (Finite q) = Finite (of_int \<lceil>q\<rceil>)"
| "Math_Ceiling d = d"

fun int_of_double :: "int \<Rightarrow> double \<Rightarrow> int" where
  "int_of_double u (Finite q) = (if q < 0 then \<lceil>q\<rceil> else \<lfloor>q\<rfloor>)"
| "int_of_double u d = u"

subsection \<open>Text of a Guid\<close>

text \<open>
  An interpolated \<open>{eventId}\<close> is \<open>Guid.ToString()\<close>: 32 lower-case hexadecimal digits in
  groups of 8, 4, 4, 4 and 12, separated by hyphens.
\<close>

definition hex_digit :: "nat \<Rightarrow> char" where
  "hex_digit d = ''0123456789abcdef'' ! (d mod 16)"

fun hex_digits :: "nat \<Rightarrow> nat \<Rightarrow> string" where
  "hex_digits 0 v = []"
| "hex_digits (Suc k) v = hex_digits k (v div 16) @ [hex_digit v]"

definition Guid_ToString :: "guid \<Rightarrow> string" where
  "Guid_ToString g =
     (let h = hex_digits 32 (unat g)
      in take 8 h @ ''-'' @ take 4 (drop 8 h) @ ''-'' @ take 4 (drop 12 h) @ ''-'' @
         take 4 (drop 16 h) @ ''-'' @ drop 20 h)"

subsection \<open>The injected repositories and unit of work\<close>

text \<open>
  The members of \<open>IEventRepository\<close>, \<open>IRoomRepository\<close>, \<open>IEventRoomRepository\<close> and
  \<open>IUnitOfWork\<close> that the use case calls, over a store \<open>'s\<close>.  A query reads the store; \<open>AddAsync\<close>,
  \<open>DeleteAsync\<close> and \<open>SaveChangesAsync\<close> return the store they leave.  The arguments of
  \<open>GetAllAsync\<close> are, in the order of the call: predicate, tracking, page, count, include,
  orderBy, descending.
\<close>

record 's EventRoomUseCase =
  eventRepository_FindOneAsync :: "(Event \<Rightarrow> bool) \<Rightarrow> 's \<Rightarrow> Event option"
  roomRepository_FindOneAsync :: "(Room \<Rightarrow> bool) \<Rightarrow> 's \<Rightarrow> Room option"
  eventRoomRepository_FindOneAsync :: "(EventRoom \<Rightarrow> bool) \<Rightarrow> 's \<Rightarrow> EventRoom option"
  eventRoomRepository_AddAsync :: "EventRoom \<Rightarrow> 's \<Rightarrow> 's"
  eventRoomRepository_DeleteAsync :: "(EventRoom \<Rightarrow> bool) \<Rightarrow> 's \<Rightarrow> 's"
  eventRoomRepository_GetCount :: "(EventRoom \<Rightarrow> bool) \<Rightarrow> 's \<Rightarrow> int"
  eventRoomRepository_GetAllAsync ::
    "(EventRoom \<Rightarrow> bool) \<Rightarrow> bool \<Rightarrow> int \<Rightarrow> int \<Rightarrow> navigation list \<Rightarrow>
     (EventRoom \<Rightarrow> guid) \<Rightarrow> bool \<Rightarrow> 's \<Rightarrow> EventRoom list"
  unitOfWork_SaveChangesAsync :: "'s \<Rightarrow> 's"

subsection \<open>EventRoomUseCase\<close>

text \<open>
  Every method takes the store and returns the store it leaves together with either the
  exception it throws (\<open>Inl\<close>) or its result (\<open>Inr\<close>).  A \<open>throw\<close> returns the store as it
  is at that statement.
\<close>

definition CreateEventRoomAsync ::
  "'s EventRoomUseCase \<Rightarrow> CreateEventRoomDTO \<Rightarrow> 's \<Rightarrow> 's \<times> (exn + EventRoomDTO option)" where
  "CreateEventRoomAsync uc dto s =
     (case eventRepository_FindOneAsync uc
             (\<lambda>e. Event_Id e = CreateEventRoomDTO_EventId dto) s of
        None \<Rightarrow> (s, Inl (NotFoundException ''Event''))
      | Some eventExists \<Rightarrow>
     (case roomRepository_FindOneAsync uc
             (\<lambda>r. Room_Id r = CreateEventRoomDTO_RoomId dto) s of
        None \<Rightarrow> (s, Inl (NotFoundException ''Room''))
      | Some roomExists \<Rightarrow>
     (case eventRoomRepository_FindOneAsync uc
             (\<lambda>er. EventRoom_EventId er = CreateEventRoomDTO_EventId dto \<and>
                    EventRoom_RoomId er = CreateEventRoomDTO_RoomId dto) s of
        Some exists \<Rightarrow>
          (s, Inl (ConflictException ''EventRoom with same Event and Room already exists.''))
      | None \<Rightarrow>
          (let eventRoom = \<lparr>EventRoom_Id = 0,
                            EventRoom_EventId = CreateEventRoomDTO_EventId dto,
                            EventRoom_RoomId = CreateEventRoomDTO_RoomId dto,
                            EventRoom_Event = None, EventRoom_Room = None\<rparr>;
               s1 = eventRoomRepository_AddAsync uc eventRoom s;
               s2 = unitOfWork_SaveChangesAsync uc s1;
               created = eventRoomRepository_FindOneAsync uc
                  (\<lambda>er. EventRoom_EventId er = CreateEventRoomDTO_EventId dto \<and>
                         EventRoom_RoomId er = CreateEventRoomDTO_RoomId dto) s2
           in (s2, Inr (Map_nullable created))))))"

definition GetFilteredEventRoomsAsync ::
  "'s EventRoomUseCase \<Rightarrow> int \<Rightarrow> EventRoomFilterDTO \<Rightarrow> 's \<Rightarrow>
   's \<times> (exn + EventRoomDTO PaginatedResultDTO)" where
  "GetFilteredEventRoomsAsync uc u filterDto s =
     (let predicate = (\<lambda>er.
            (EventRoomFilterDTO_EventId filterDto = None \<or>
             Some (EventRoom_EventId er) = EventRoomFilterDTO_EventId filterDto) \<and>
            (EventRoomFilterDTO_RoomId filterDto = None \<or>
             Some (EventRoom_RoomId er) = EventRoomFilterDTO_RoomId filterDto));
          totalCount = eventRoomRepository_GetCount uc predicate s;
          eventRooms = eventRoomRepository_GetAllAsync uc predicate False
             (EventRoomFilterDTO_PageNumber filterDto) (EventRoomFilterDTO_PageSize filterDto)
             [Nav_Event, Nav_Room] EventRoom_Id False s;
          items = map Map_EventRoomDTO eventRooms;
          totalPages = int_of_double u (Math_Ceiling
             (divide_double totalCount (EventRoomFilterDTO_PageSize filterDto)))
      in (s, Inr \<lparr>Items = items,
                  PageIndex = EventRoomFilterDTO_PageNumber filterDto,
                  PageSize = EventRoomFilterDTO_PageSize filterDto,
                  TotalCount = totalCount,
                  TotalPages = totalPages,
                  HasPreviousPage = (1 < EventRoomFilterDTO_PageNumber filterDto),
                  HasNextPage = (EventRoomFilterDTO_PageNumber filterDto < totalPages)\<rparr>))"

definition GetEventRoomAsync ::
  "'s EventRoomUseCase \<Rightarrow> guid \<Rightarrow> guid \<Rightarrow> 's \<Rightarrow> 's \<times> (exn + EventRoomDTO)" where
  "GetEventRoomAsync uc eventId roomId s =
     (case eventRoomRepository_FindOneAsync uc
             (\<lambda>er. EventRoom_EventId er = eventId \<and> EventRoom_RoomId er = roomId) s of
        None \<Rightarrow> (s, Inl (NotFoundException ''EventRoom''))
      | Some eventRoom \<Rightarrow> (s, Inr (Map_EventRoomDTO eventRoom)))"

definition DeleteEventRoomAsync ::
  "'s EventRoomUseCase \<Rightarrow> guid \<Rightarrow> guid \<Rightarrow> 's \<Rightarrow> 's \<times> (exn + unit)" where
  "DeleteEventRoomAsync uc eventId roomId s =
     (case eventRoomRepository_FindOneAsync uc
             (\<lambda>er. EventRoom_EventId er = eventId \<and> EventRoom_RoomId er = roomId) s of
        None \<Rightarrow>
          (s, Inl (NotFoundException
             (''EventRoom with EventId='' @ Guid_ToString eventId @
              '' and RoomId='' @ Guid_ToString roomId @ '' not found'')))
      | Some exists \<Rightarrow>
          (let s1 = eventRoomRepository_DeleteAsync uc
                 (\<lambda>er. EventRoom_EventId er = eventId \<and> EventRoom_RoomId er = roomId) s;
               s2 = unitOfWork_SaveChangesAsync uc s1
           in (s2, Inr ())))"

subsection \<open>The store behind the repositories\<close>

text \<open>
  \<open>EventRoomRepository\<close> derives from \<open>Repository<EventRoom>\<close> over an
  \<open>ApplicationDbContext\<close>.  The context holds the three tables and the changes that
  \<open>SaveChangesAsync\<close> has not written yet; rows are kept in the order of their insertion.
  A stored row has no navigation properties: they are resolved by \<open>Include\<close>.
\<close>

datatype change = Added EventRoom | Deleted "EventRoom \<Rightarrow> bool"

record ApplicationDbContext =
  Events :: "Event list"
  Rooms :: "Room list"
  EventRooms :: "EventRoom list"
  ChangeTracker :: "change list"
  NewGuid :: guid

text \<open>
  \<open>q.Include(er => er.Event).Include(er => er.Room)\<close>: each navigation property that is
  named is resolved through its foreign key.
\<close>

definition Include :: "navigation list \<Rightarrow> ApplicationDbContext \<Rightarrow> EventRoom \<Rightarrow> EventRoom" where
  "Include navs ctx er =
     er\<lparr>EventRoom_Event :=
          (if Nav_Event \<in> set navs
           then find (\<lambda>e. Event_Id e = EventRoom_EventId er) (Events ctx)
           else EventRoom_Event er),
        EventRoom_Room :=
          (if Nav_Room \<in> set navs
           then find (\<lambda>r. Room_Id r = EventRoom_RoomId er) (Rooms ctx)
           else EventRoom_Room er)\<rparr>"

text \<open>
  Modelled from the spec: \<open>Repository<T>.FindOneAsync\<close> is not among the sources.
  ``\<open>findOne(predicate) \<rightarrow> record?\<close> --- first match or absent.''  The call takes a
  predicate (and a tracking flag) and no \<open>include\<close>, so the row is returned as stored.
\<close>

definition Repository_FindOneAsync :: "('a \<Rightarrow> bool) \<Rightarrow> 'a list \<Rightarrow> 'a option" where
  "Repository_FindOneAsync predicate dbSet = find predicate dbSet"

text \<open>
  Modelled from the spec: \<open>Repository<T>.GetCount\<close> is not among the sources.
  ``\<open>count(predicate) \<rightarrow> integer\<close>.''
\<close>

definition Repository_GetCount :: "('a \<Rightarrow> bool) \<Rightarrow> 'a list \<Rightarrow> int" where
  "Repository_GetCount predicate dbSet = int (length (filter predicate dbSet))"

text \<open>
  Modelled from the spec: \<open>Repository<T>.GetAllAsync\<close> is not among the sources.
  ``\<open>findPage(predicate, page, pageSize, orderBy, includeRelated) \<rightarrow> sequence of records\<close>
  --- returns at most \<open>pageSize\<close> records starting at the given page, with related
  entities resolved when \<open>includeRelated\<close> is requested''; ``page \<open>p\<close> returns records at
  offset \<open>(p-1)*pageSize\<close>, limited to \<open>pageSize\<close>''; ``stable ascending order by the
  record's surrogate identifier''.  The spec gives a page number and a page size of at
  least 1; below that \<open>nat\<close> makes the offset and the limit 0.
\<close>

definition Repository_GetAllAsync ::
  "(EventRoom \<Rightarrow> bool) \<Rightarrow> bool \<Rightarrow> int \<Rightarrow> int \<Rightarrow> navigation list \<Rightarrow>
   (EventRoom \<Rightarrow> guid) \<Rightarrow> bool \<Rightarrow> ApplicationDbContext \<Rightarrow> EventRoom list" where
  "Repository_GetAllAsync predicate tracking page count include orderBy descending ctx =
     (let matching = filter predicate (EventRooms ctx);
          ordered = (if descending then rev (sort_key orderBy matching)
                     else sort_key orderBy matching)
      in map (Include include ctx)
           (take (nat count) (drop (nat ((page - 1) * count)) ordered)))"

text \<open>
  Modelled from the spec: \<open>Repository<T>.AddAsync\<close> is not among the sources.
  ``\<open>add(record) \<rightarrow> void\<close>'', ``durable upon the unit-of-work commit boundary''; the
  record gets its generated field, the surrogate identifier, which the re-read of
  \<open>create\<close> is there to obtain.  The generator is a counter.
\<close>

definition Repository_AddAsync :: "EventRoom \<Rightarrow> ApplicationDbContext \<Rightarrow> ApplicationDbContext" where
  "Repository_AddAsync entity ctx =
     ctx\<lparr>ChangeTracker := ChangeTracker ctx @ [Added (entity\<lparr>EventRoom_Id := NewGuid ctx\<rparr>)],
         NewGuid := NewGuid ctx + 1\<rparr>"

text \<open>
  Modelled from the spec: \<open>Repository<T>.DeleteAsync\<close> is not among the sources.
  ``\<open>deleteByKeys(eventId, roomId) \<rightarrow> void\<close>'', ``durable upon the unit-of-work commit
  boundary'': the rows that satisfy the predicate are marked for removal.
\<close>

definition Repository_DeleteAsync ::
  "(EventRoom \<Rightarrow> bool) \<Rightarrow> ApplicationDbContext \<Rightarrow> ApplicationDbContext" where
  "Repository_DeleteAsync predicate ctx =
     ctx\<lparr>ChangeTracker := ChangeTracker ctx @ [Deleted predicate]\<rparr>"

fun apply_change :: "change \<Rightarrow> EventRoom list \<Rightarrow> EventRoom list" where
  "apply_change (Added entity) rows = rows @ [entity]"
| "apply_change (Deleted predicate) rows = filter (\<lambda>er. \<not> predicate er) rows"

text \<open>
  Modelled from the spec: \<open>IUnitOfWork.SaveChangesAsync\<close> is not among the sources.
  It is ``the unit-of-work commit boundary the service controls'': the pending changes
  are written, in the order they were made.
\<close>

definition SaveChangesAsync :: "ApplicationDbContext \<Rightarrow> ApplicationDbContext" where
  "SaveChangesAsync ctx =
     ctx\<lparr>EventRooms := fold apply_change (ChangeTracker ctx) (EventRooms ctx),
         ChangeTracker := []\<rparr>"

text \<open>\<open>EventRoomRepository.GetByIdsAsync\<close>, which no method of the use case calls.\<close>

definition GetByIdsAsync :: "guid \<Rightarrow> guid \<Rightarrow> ApplicationDbContext \<Rightarrow> EventRoom option" where
  "GetByIdsAsync eventId roomId ctx =
     find (\<lambda>er. EventRoom_EventId er = eventId \<and> EventRoom_RoomId er = roomId)
       (map (Include [Nav_Event, Nav_Room] ctx) (EventRooms ctx))"

text \<open>
  The service registration: the use case over the repositories of the three tables of one
  context and its unit of work.
\<close>

definition services :: "ApplicationDbContext EventRoomUseCase" where
  "services =
     \<lparr>eventRepository_FindOneAsync = (\<lambda>predicate ctx. Repository_FindOneAsync predicate (Events ctx)),
      roomRepository_FindOneAsync = (\<lambda>predicate ctx. Repository_FindOneAsync predicate (Rooms ctx)),
      eventRoomRepository_FindOneAsync =
        (\<lambda>predicate ctx. Repository_FindOneAsync predicate (EventRooms ctx)),
      eventRoomRepository_AddAsync = Repository_AddAsync,
      eventRoomRepository_DeleteAsync = Repository_DeleteAsync,
      eventRoomRepository_GetCount =
        (\<lambda>predicate ctx. Repository_GetCount predicate (EventRooms ctx)),
      eventRoomRepository_GetAllAsync = Repository_GetAllAsync,
      unitOfWork_SaveChangesAsync = SaveChangesAsync\<rparr>"

subsection \<open>Sequences of calls\<close>

datatype request =
  Create CreateEventRoomDTO
| ListFiltered EventRoomFilterDTO
| Get guid guid
| Delete guid guid

text \<open>The store a call leaves, whether it returns or throws.\<close>

fun handle :: "int \<Rightarrow> request \<Rightarrow> ApplicationDbContext \<Rightarrow> ApplicationDbContext" where
  "handle u (Create dto) ctx = fst (CreateEventRoomAsync services dto ctx)"
| "handle u (ListFiltered filterDto) ctx = fst (GetFilteredEventRoomsAsync services u filterDto ctx)"
| "handle u (Get eventId roomId) ctx = fst (GetEventRoomAsync services eventId roomId ctx)"
| "handle u (Delete eventId roomId) ctx = fst (DeleteEventRoomAsync services eventId roomId ctx)"

definition run :: "int \<Rightarrow> request list \<Rightarrow> ApplicationDbContext \<Rightarrow> ApplicationDbContext" where
  "run u requests ctx = fold (handle u) requests ctx"

subsection \<open>Example stores\<close>

text \<open>One event and one room; \<open>example_ctx\<close> has no association yet, \<open>example_ctx1\<close> has theirs.\<close>

definition example_ctx :: ApplicationDbContext where
  "example_ctx =
     \<lparr>Events = [\<lparr>Event_Id = 1, Event_Name = ''Tech Conference''\<rparr>],
      Rooms = [\<lparr>Room_Id = 2, Room_Name = ''Room 101''\<rparr>],
      EventRooms = [], ChangeTracker = [], NewGuid = 7\<rparr>"

definition example_dto :: CreateEventRoomDTO where
  "example_dto = \<lparr>CreateEventRoomDTO_EventId = 1, CreateEventRoomDTO_RoomId = 2\<rparr>"

definition example_ctx1 :: ApplicationDbContext where
  "example_ctx1 =
     \<lparr>Events = [\<lparr>Event_Id = 1, Event_Name = ''Tech Conference''\<rparr>],
      Rooms = [\<lparr>Room_Id = 2, Room_Name = ''Room 101''\<rparr>],
      EventRooms = [\<lparr>EventRoom_Id = 7, EventRoom_EventId = 1, EventRoom_RoomId = 2,
                     EventRoom_Event = None, EventRoom_Room = None\<rparr>],
      ChangeTracker = [], NewGuid = 8\<rparr>"

text \<open>
  Stub repositories, as a unit test may set them up: the event and the room are found,
  no association ever is, and nothing is stored.
\<close>

definition stub_useCase :: "unit EventRoomUseCase" where
  "stub_useCase =
     \<lparr>eventRepository_FindOneAsync = (\<lambda>predicate s. Some \<lparr>Event_Id = 1, Event_Name = ''Tech Conference''\<rparr>),
      roomRepository_FindOneAsync = (\<lambda>predicate s. Some \<lparr>Room_Id = 2, Room_Name = ''Room 101''\<rparr>),
      eventRoomRepository_FindOneAsync = (\<lambda>predicate s. None),
      eventRoomRepository_AddAsync = (\<lambda>entity s. s),
      eventRoomRepository_DeleteAsync = (\<lambda>predicate s. s),
      eventRoomRepository_GetCount = (\<lambda>predicate s. 0),
      eventRoomRepository_GetAllAsync = (\<lambda>predicate tracking page count include orderBy descending s. []),
      unitOfWork_SaveChangesAsync = (\<lambda>s. s)\<rparr>"

text \<open>Two creations of the same pair, two reads, a deletion and a third creation.\<close>

definition example_requests :: "request list" where
  "example_requests =
     [Create example_dto, Create example_dto, Get 1 2,
      ListFiltered \<lparr>EventRoomFilterDTO_EventId = None, EventRoomFilterDTO_RoomId = None,
         EventRoomFilterDTO_PageNumber = 1, EventRoomFilterDTO_PageSize = 10\<rparr>,
      Delete 1 2, Create example_dto]"

definition example_filter :: EventRoomFilterDTO where
  "example_filter =
     \<lparr>EventRoomFilterDTO_EventId = Some 1, EventRoomFilterDTO_RoomId = None,
      EventRoomFilterDTO_PageNumber = 1, EventRoomFilterDTO_PageSize = 10\<rparr>"

text \<open>
  Two events, two rooms and three associations, stored in another order than that of
  their identifiers; the second page of two; a filter on an event that does not exist.
\<close>

definition example_ctx3 :: ApplicationDbContext where
  "example_ctx3 =
     \<lparr>Events = [\<lparr>Event_Id = 1, Event_Name = ''Tech Conference''\<rparr>,
                \<lparr>Event_Id = 4, Event_Name = ''Workshop''\<rparr>],
      Rooms = [\<lparr>Room_Id = 2, Room_Name = ''Room 101''\<rparr>,
               \<lparr>Room_Id = 3, Room_Name = ''Room 102''\<rparr>],
      EventRooms = [\<lparr>EventRoom_Id = 9, EventRoom_EventId = 1, EventRoom_RoomId = 2,
                     EventRoom_Event = None, EventRoom_Room = None\<rparr>,
                    \<lparr>EventRoom_Id = 7, EventRoom_EventId = 1, EventRoom_RoomId = 3,
                     EventRoom_Event = None, EventRoom_Room = None\<rparr>,
                    \<lparr>EventRoom_Id = 8, EventRoom_EventId = 4, EventRoom_RoomId = 2,
                     EventRoom_Event = None, EventRoom_Room = None\<rparr>],
      ChangeTracker = [], NewGuid = 10\<rparr>"

definition example_page2 :: EventRoomFilterDTO where
  "example_page2 =
     \<lparr>EventRoomFilterDTO_EventId = None, EventRoomFilterDTO_RoomId = None,
      EventRoomFilterDTO_PageNumber = 2, EventRoomFilterDTO_PageSize = 2\<rparr>"


subsection \<open>Predicates of the specification\<close>

text \<open>The composite key of an association.\<close>

definition pair_of :: "EventRoom \<Rightarrow> guid \<times> guid" where
  "pair_of er = (EventRoom_EventId er, EventRoom_RoomId er)"

text \<open>
  A store between two calls: nothing pending, at most one association for a pair, and
  every association refers to an event and a room that exist.
\<close>

definition consistent :: "ApplicationDbContext \<Rightarrow> bool" where
  "consistent ctx \<longleftrightarrow>
     ChangeTracker ctx = [] \<and> distinct (map pair_of (EventRooms ctx)) \<and>
     (\<forall>er \<in> set (EventRooms ctx).
        (\<exists>e \<in> set (Events ctx). Event_Id e = EventRoom_EventId er) \<and>
        (\<exists>r \<in> set (Rooms ctx). Room_Id r = EventRoom_RoomId er))"

text \<open>
  The matching predicate in the words of the specification: a record matches if
  (\<open>filter.eventId\<close> is unset or equals the record's) and (\<open>filter.roomId\<close> is unset or
  equals the record's).
\<close>

definition spec_matches :: "EventRoomFilterDTO \<Rightarrow> EventRoom \<Rightarrow> bool" where
  "spec_matches f er \<longleftrightarrow>
     (case EventRoomFilterDTO_EventId f of None \<Rightarrow> True | Some eventId \<Rightarrow> EventRoom_EventId er = eventId) \<and>
     (case EventRoomFilterDTO_RoomId f of None \<Rightarrow> True | Some roomId \<Rightarrow> EventRoom_RoomId er = roomId)"

section \<open>Properties\<close>

subsection \<open>The repositories of the store\<close>

lemma services_simps [simp]:
  "eventRepository_FindOneAsync services p ctx = find p (Events ctx)"
  "roomRepository_FindOneAsync services q ctx = find q (Rooms ctx)"
  "eventRoomRepository_FindOneAsync services k ctx = find k (EventRooms ctx)"
  "eventRoomRepository_AddAsync services = Repository_AddAsync"
  "eventRoomRepository_DeleteAsync services = Repository_DeleteAsync"
  "eventRoomRepository_GetCount services k ctx = int (length (filter k (EventRooms ctx)))"
  "eventRoomRepository_GetAllAsync services = Repository_GetAllAsync"
  "unitOfWork_SaveChangesAsync services = SaveChangesAsync"
  by (simp_all add: services_def Repository_FindOneAsync_def Repository_GetCount_def)

lemma find_key_append_new:
  "find P xs = None \<Longrightarrow> P x \<Longrightarrow> find P (xs @ [x]) = Some x"
  by (induction xs) (auto split: if_splits)

lemma create_on_store:
  assumes "ChangeTracker ctx = []"
  shows "CreateEventRoomAsync services dto ctx =
    (if \<not> (\<exists>e \<in> set (Events ctx). Event_Id e = CreateEventRoomDTO_EventId dto)
     then (ctx, Inl (NotFoundException ''Event''))
     else if \<not> (\<exists>r \<in> set (Rooms ctx). Room_Id r = CreateEventRoomDTO_RoomId dto)
     then (ctx, Inl (NotFoundException ''Room''))
     else if (\<exists>er \<in> set (EventRooms ctx).
                EventRoom_EventId er = CreateEventRoomDTO_EventId dto \<and>
                EventRoom_RoomId er = CreateEventRoomDTO_RoomId dto)
     then (ctx, Inl (ConflictException ''EventRoom with same Event and Room already exists.''))
     else (ctx\<lparr>EventRooms := EventRooms ctx @
                 [\<lparr>EventRoom_Id = NewGuid ctx,
                   EventRoom_EventId = CreateEventRoomDTO_EventId dto,
                   EventRoom_RoomId = CreateEventRoomDTO_RoomId dto,
                   EventRoom_Event = None, EventRoom_Room = None\<rparr>],
               NewGuid := NewGuid ctx + 1\<rparr>,
           Inr (Some \<lparr>EventRoomDTO_Id = NewGuid ctx,
                       EventRoomDTO_EventId = CreateEventRoomDTO_EventId dto,
                       EventRoomDTO_RoomId = CreateEventRoomDTO_RoomId dto,
                       EventRoomDTO_Event = None, EventRoomDTO_Room = None\<rparr>)))"
proof -
  let ?key = "\<lambda>er. EventRoom_EventId er = CreateEventRoomDTO_EventId dto \<and>
                    EventRoom_RoomId er = CreateEventRoomDTO_RoomId dto"
  let ?new = "\<lparr>EventRoom_Id = NewGuid ctx,
               EventRoom_EventId = CreateEventRoomDTO_EventId dto,
               EventRoom_RoomId = CreateEventRoomDTO_RoomId dto,
               EventRoom_Event = None, EventRoom_Room = None\<rparr>"
  show ?thesis
  proof (cases "find (\<lambda>e. Event_Id e = CreateEventRoomDTO_EventId dto) (Events ctx)")
    case None
    moreover from None
    have "\<not> (\<exists>e \<in> set (Events ctx). Event_Id e = CreateEventRoomDTO_EventId dto)"
      by (auto simp: find_None_iff)
    ultimately show ?thesis
      by (simp add: CreateEventRoomAsync_def)
  next
    case ev: (Some e)
    then have ev': "\<exists>e \<in> set (Events ctx). Event_Id e = CreateEventRoomDTO_EventId dto"
      by (auto simp: find_Some_iff)
    show ?thesis
    proof (cases "find (\<lambda>r. Room_Id r = CreateEventRoomDTO_RoomId dto) (Rooms ctx)")
      case None
      moreover from None
      have "\<not> (\<exists>r \<in> set (Rooms ctx). Room_Id r = CreateEventRoomDTO_RoomId dto)"
        by (auto simp: find_None_iff)
      ultimately show ?thesis
        using ev ev' by (simp add: CreateEventRoomAsync_def)
    next
      case rm: (Some r)
      then have rm': "\<exists>r \<in> set (Rooms ctx). Room_Id r = CreateEventRoomDTO_RoomId dto"
        by (auto simp: find_Some_iff)
      show ?thesis
      proof (cases "find ?key (EventRooms ctx)")
        case (Some er)
        then have "\<exists>er \<in> set (EventRooms ctx). ?key er"
          by (auto simp: find_Some_iff)
        with ev ev' rm rm' Some show ?thesis
          by (simp add: CreateEventRoomAsync_def)
      next
        case None
        then have no: "\<not> (\<exists>er \<in> set (EventRooms ctx). ?key er)"
          by (auto simp: find_None_iff)
        have "find ?key (EventRooms ctx @ [?new]) = Some ?new"
          using None by (intro find_key_append_new) simp_all
        with ev ev' rm rm' None no assms show ?thesis
          by (simp add: CreateEventRoomAsync_def Repository_AddAsync_def SaveChangesAsync_def
              Map_nullable_def Map_EventRoomDTO_def)
      qed
    qed
  qed
qed

lemma delete_on_store:
  assumes "ChangeTracker ctx = []"
  shows "DeleteEventRoomAsync services eventId roomId ctx =
    (if \<exists>er \<in> set (EventRooms ctx). EventRoom_EventId er = eventId \<and> EventRoom_RoomId er = roomId
     then (ctx\<lparr>EventRooms :=
                 filter (\<lambda>er. \<not> (EventRoom_EventId er = eventId \<and> EventRoom_RoomId er = roomId))
                   (EventRooms ctx)\<rparr>, Inr ())
     else (ctx, Inl (NotFoundException
             (''EventRoom with EventId='' @ Guid_ToString eventId @
              '' and RoomId='' @ Guid_ToString roomId @ '' not found''))))"
proof (cases "find (\<lambda>er. EventRoom_EventId er = eventId \<and> EventRoom_RoomId er = roomId) (EventRooms ctx)")
  case None
  moreover from None
  have "\<not> (\<exists>er \<in> set (EventRooms ctx). EventRoom_EventId er = eventId \<and> EventRoom_RoomId er = roomId)"
    by (auto simp: find_None_iff)
  ultimately show ?thesis
    by (simp add: DeleteEventRoomAsync_def)
next
  case (Some er)
  moreover from Some
  have "\<exists>er \<in> set (EventRooms ctx). EventRoom_EventId er = eventId \<and> EventRoom_RoomId er = roomId"
    by (auto simp: find_Some_iff)
  ultimately show ?thesis
    using assms
    by (simp add: DeleteEventRoomAsync_def Repository_DeleteAsync_def SaveChangesAsync_def)
qed

lemma fst_GetFilteredEventRoomsAsync [simp]:
  "fst (GetFilteredEventRoomsAsync uc u f s) = s"
  by (simp add: GetFilteredEventRoomsAsync_def Let_def)

lemma fst_GetEventRoomAsync [simp]:
  "fst (GetEventRoomAsync uc eventId roomId s) = s"
  by (simp add: GetEventRoomAsync_def split: option.splits)

lemma handle_consistent:
  assumes "consistent ctx"
  shows "consistent (handle u rq ctx)"
proof (cases rq)
  case (Create dto)
  from assms have ct: "ChangeTracker ctx = []" by (simp add: consistent_def)
  show ?thesis
    using assms unfolding Create handle.simps create_on_store [OF ct]
    by (auto simp: consistent_def pair_of_def)
next
  case (Delete eventId roomId)
  from assms have ct: "ChangeTracker ctx = []" by (simp add: consistent_def)
  show ?thesis
    using assms unfolding Delete handle.simps delete_on_store [OF ct]
    by (auto simp: consistent_def distinct_map_filter)
qed (use assms in simp_all)

lemma handle_tables [simp]:
  "ChangeTracker ctx = [] \<Longrightarrow> Events (handle u rq ctx) = Events ctx"
  "ChangeTracker ctx = [] \<Longrightarrow> Rooms (handle u rq ctx) = Rooms ctx"
  by (cases rq; simp add: create_on_store delete_on_store)+

lemma run_consistent:
  "consistent ctx \<Longrightarrow> consistent (run u requests ctx)"
  unfolding run_def
  by (induction requests arbitrary: ctx) (simp_all add: handle_consistent)

lemma run_tables:
  "consistent ctx \<Longrightarrow> Events (run u requests ctx) = Events ctx \<and> Rooms (run u requests ctx) = Rooms ctx"
  unfolding run_def
proof (induction requests arbitrary: ctx)
  case Nil
  then show ?case by simp
next
  case (Cons rq requests)
  from Cons.prems have "ChangeTracker ctx = []" by (simp add: consistent_def)
  with Cons.IH [OF handle_consistent [OF Cons.prems]] show ?case by simp
qed

lemma empty_consistent:
  "EventRooms ctx = [] \<Longrightarrow> ChangeTracker ctx = [] \<Longrightarrow> consistent ctx"
  by (simp add: consistent_def)

lemma run_example:
  "run 0 example_requests example_ctx =
     example_ctx\<lparr>EventRooms := [\<lparr>EventRoom_Id = 8, EventRoom_EventId = 1, EventRoom_RoomId = 2,
                                  EventRoom_Event = None, EventRoom_Room = None\<rparr>],
                 NewGuid := 9\<rparr>"
  by (simp add: run_def example_requests_def create_on_store delete_on_store
      example_ctx_def example_dto_def)

lemma predicate_spec_matches:
  "(\<lambda>er. (EventRoomFilterDTO_EventId f = None \<or>
          Some (EventRoom_EventId er) = EventRoomFilterDTO_EventId f) \<and>
         (EventRoomFilterDTO_RoomId f = None \<or>
          Some (EventRoom_RoomId er) = EventRoomFilterDTO_RoomId f)) = spec_matches f"
  by (auto simp: spec_matches_def fun_eq_iff split: option.splits)

lemma spec_matches_PageNumber [simp]:
  "spec_matches (f\<lparr>EventRoomFilterDTO_PageNumber := p'\<rparr>) = spec_matches f"
  by (simp add: spec_matches_def fun_eq_iff)

lemma listFiltered_on_store:
  "GetFilteredEventRoomsAsync services u f ctx =
     (ctx, Inr \<lparr>Items = map (\<lambda>er. Map_EventRoomDTO (Include [Nav_Event, Nav_Room] ctx er))
                  (take (nat (EventRoomFilterDTO_PageSize f))
                     (drop (nat ((EventRoomFilterDTO_PageNumber f - 1) * EventRoomFilterDTO_PageSize f))
                        (sort_key EventRoom_Id (filter (spec_matches f) (EventRooms ctx))))),
                PageIndex = EventRoomFilterDTO_PageNumber f,
                PageSize = EventRoomFilterDTO_PageSize f,
                TotalCount = int (length (filter (spec_matches f) (EventRooms ctx))),
                TotalPages = int_of_double u (Math_Ceiling (divide_double
                    (int (length (filter (spec_matches f) (EventRooms ctx))))
                    (EventRoomFilterDTO_PageSize f))),
                HasPreviousPage = (1 < EventRoomFilterDTO_PageNumber f),
                HasNextPage = (EventRoomFilterDTO_PageNumber f <
                  int_of_double u (Math_Ceiling (divide_double
                    (int (length (filter (spec_matches f) (EventRooms ctx))))
                    (EventRoomFilterDTO_PageSize f))))\<rparr>)"
  by (simp add: GetFilteredEventRoomsAsync_def Let_def predicate_spec_matches
      Repository_GetAllAsync_def o_def)

lemma int_of_Math_Ceiling:
  "int_of_double u (Math_Ceiling (Finite q)) = \<lceil>q\<rceil>"
  by simp

lemma ceiling_divide_of_int:
  "\<lceil>(of_int a / of_int b :: 'a :: floor_ceiling)\<rceil> = - ((- a) div b)"
proof -
  have "- (of_int a / of_int b :: 'a) = of_int (- a) / of_int b"
    by simp
  then show ?thesis
    by (simp only: ceiling_def floor_divide_of_int_eq)
qed

lemma total_pages_div:
  assumes "b \<noteq> 0"
  shows "int_of_double u (Math_Ceiling (divide_double a b)) = - ((- a) div b)"
proof -
  have "divide_double a b = Finite (of_int a / of_int b)"
    using assms by (simp add: divide_double_def)
  then show ?thesis
    by (simp only: int_of_Math_Ceiling ceiling_divide_of_int)
qed

lemma total_pages_ceiling:
  assumes "b \<noteq> 0"
  shows "int_of_double u (Math_Ceiling (divide_double a b)) = \<lceil>real_of_int a / real_of_int b\<rceil>"
  by (simp only: total_pages_div [OF assms] ceiling_divide_of_int)

lemma ceiling_pages_cover:
  assumes "0 < n"
  shows "l \<le> \<lceil>real_of_int l / real_of_int n\<rceil> * n"
proof -
  have "real_of_int l = real_of_int l / real_of_int n * real_of_int n"
    using assms by simp
  also have "\<dots> \<le> real_of_int \<lceil>real_of_int l / real_of_int n\<rceil> * real_of_int n"
    using assms by (intro mult_right_mono) simp_all
  finally have "real_of_int l \<le> real_of_int (\<lceil>real_of_int l / real_of_int n\<rceil> * n)"
    by simp
  then show ?thesis by linarith
qed

lemma Guid_ToString_1: "Guid_ToString 1 = ''00000000-0000-0000-0000-000000000001''"
  by code_simp

lemma Guid_ToString_2: "Guid_ToString 2 = ''00000000-0000-0000-0000-000000000002''"
  by code_simp

subsection \<open>The claims\<close>

text \<open>
  C1.  On a store with no pending change, \<open>CreateEventRoomAsync\<close> makes its checks in this
  order and stops at the first that fails: no event with the given id, \<open>NotFoundException("Event")\<close>;
  otherwise no room with the given id, \<open>NotFoundException("Room")\<close>; otherwise an
  association with the same pair, \<open>ConflictException\<close>; otherwise it appends one new
  association, with its generated identifier, and returns the record it reads back.
\<close>

theorem create_checks_in_order:
  assumes "ChangeTracker ctx = []"
  shows "CreateEventRoomAsync services dto ctx =
    (if \<not> (\<exists>e \<in> set (Events ctx). Event_Id e = CreateEventRoomDTO_EventId dto)
     then (ctx, Inl (NotFoundException ''Event''))
     else if \<not> (\<exists>r \<in> set (Rooms ctx). Room_Id r = CreateEventRoomDTO_RoomId dto)
     then (ctx, Inl (NotFoundException ''Room''))
     else if (\<exists>er \<in> set (EventRooms ctx).
                EventRoom_EventId er = CreateEventRoomDTO_EventId dto \<and>
                EventRoom_RoomId er = CreateEventRoomDTO_RoomId dto)
     then (ctx, Inl (ConflictException ''EventRoom with same Event and Room already exists.''))
     else (ctx\<lparr>EventRooms := EventRooms ctx @
                 [\<lparr>EventRoom_Id = NewGuid ctx,
                   EventRoom_EventId = CreateEventRoomDTO_EventId dto,
                   EventRoom_RoomId = CreateEventRoomDTO_RoomId dto,
                   EventRoom_Event = None, EventRoom_Room = None\<rparr>],
               NewGuid := NewGuid ctx + 1\<rparr>,
           Inr (Some (Map_EventRoomDTO
                  \<lparr>EventRoom_Id = NewGuid ctx,
                   EventRoom_EventId = CreateEventRoomDTO_EventId dto,
                   EventRoom_RoomId = CreateEventRoomDTO_RoomId dto,
                   EventRoom_Event = None, EventRoom_Room = None\<rparr>))))"
proof -
  have "Map_EventRoomDTO
          \<lparr>EventRoom_Id = NewGuid ctx,
           EventRoom_EventId = CreateEventRoomDTO_EventId dto,
           EventRoom_RoomId = CreateEventRoomDTO_RoomId dto,
           EventRoom_Event = None, EventRoom_Room = None\<rparr> =
        \<lparr>EventRoomDTO_Id = NewGuid ctx,
         EventRoomDTO_EventId = CreateEventRoomDTO_EventId dto,
         EventRoomDTO_RoomId = CreateEventRoomDTO_RoomId dto,
         EventRoomDTO_Event = None, EventRoomDTO_Room = None\<rparr>"
    by (simp add: Map_EventRoomDTO_def)
  then show ?thesis
    by (simp only: create_on_store [OF assms])
qed

theorem create_checks_in_order_witness:
  "ChangeTracker example_ctx = [] \<and>
   CreateEventRoomAsync services example_dto example_ctx =
     (example_ctx\<lparr>EventRooms :=
          [\<lparr>EventRoom_Id = 7, EventRoom_EventId = 1, EventRoom_RoomId = 2,
            EventRoom_Event = None, EventRoom_Room = None\<rparr>], NewGuid := 8\<rparr>,
      Inr (Some \<lparr>EventRoomDTO_Id = 7, EventRoomDTO_EventId = 1, EventRoomDTO_RoomId = 2,
                  EventRoomDTO_Event = None, EventRoomDTO_Room = None\<rparr>))"
  using create_checks_in_order [of example_ctx example_dto]
  by (simp add: example_ctx_def example_dto_def Map_EventRoomDTO_def)

text \<open>
  C2.  Whenever \<open>CreateEventRoomAsync\<close> throws, it throws one of its three exceptions and
  the store is the one it was given, whatever the repositories and the unit of work do
  when they are called: no call that changes the store precedes a \<open>throw\<close>.
\<close>

theorem create_failure_leaves_store:
  assumes "snd (CreateEventRoomAsync uc dto s) = Inl e"
  shows "fst (CreateEventRoomAsync uc dto s) = s \<and>
         (e = NotFoundException ''Event'' \<or> e = NotFoundException ''Room'' \<or>
          e = ConflictException ''EventRoom with same Event and Room already exists.'')"
  using assms
  by (auto simp: CreateEventRoomAsync_def Let_def split: option.splits)

theorem create_failure_leaves_store_witness:
  "snd (CreateEventRoomAsync services example_dto example_ctx1) =
     Inl (ConflictException ''EventRoom with same Event and Room already exists.'') \<and>
   fst (CreateEventRoomAsync services example_dto example_ctx1) = example_ctx1"
proof -
  have f: "snd (CreateEventRoomAsync services example_dto example_ctx1) =
     Inl (ConflictException ''EventRoom with same Event and Room already exists.'')"
    by (simp add: CreateEventRoomAsync_def example_dto_def example_ctx1_def)
  from create_failure_leaves_store [OF f] f show ?thesis by simp
qed

text \<open>
  C3.  From a store with no association and no pending change, after any sequence of
  create, list, get and delete calls, no two association records have the same pair
  (\<open>EventId\<close>, \<open>RoomId\<close>).
\<close>

theorem pair_unique_in_reachable_stores:
  assumes "EventRooms ctx = []" and "ChangeTracker ctx = []"
  shows "distinct (map (\<lambda>er. (EventRoom_EventId er, EventRoom_RoomId er))
           (EventRooms (run u requests ctx)))"
  using run_consistent [OF empty_consistent [OF assms], of u requests]
  by (simp add: consistent_def pair_of_def [abs_def])

theorem pair_unique_in_reachable_stores_witness:
  "EventRooms example_ctx = [] \<and> ChangeTracker example_ctx = [] \<and>
   distinct (map (\<lambda>er. (EventRoom_EventId er, EventRoom_RoomId er))
     (EventRooms (run 0 example_requests example_ctx))) \<and>
   EventRooms (run 0 example_requests example_ctx) =
     [\<lparr>EventRoom_Id = 8, EventRoom_EventId = 1, EventRoom_RoomId = 2,
       EventRoom_Event = None, EventRoom_Room = None\<rparr>]"
proof -
  have e: "EventRooms example_ctx = []" and c: "ChangeTracker example_ctx = []"
    by (simp_all add: example_ctx_def)
  from pair_unique_in_reachable_stores [OF e c, of 0 example_requests] e c show ?thesis
    by (simp add: run_example)
qed

text \<open>
  C4.  \<open>GetEventRoomAsync\<close> throws \<open>NotFoundException("EventRoom")\<close> on a store without
  the association.  On a store that holds event 1, room 2 and their association, the
  record it returns has neither \<open>Event\<close> nor \<open>Room\<close>, since it looks the association up
  with \<open>FindOneAsync\<close>; \<open>GetByIdsAsync\<close> of the repository, on the same store and key,
  resolves both.
\<close>

theorem get_unresolved_navigation:
  "GetEventRoomAsync services 1 2 example_ctx = (example_ctx, Inl (NotFoundException ''EventRoom'')) \<and>
   GetEventRoomAsync services 1 2 example_ctx1 =
     (example_ctx1,
      Inr \<lparr>EventRoomDTO_Id = 7, EventRoomDTO_EventId = 1, EventRoomDTO_RoomId = 2,
           EventRoomDTO_Event = None, EventRoomDTO_Room = None\<rparr>) \<and>
   map_option Map_EventRoomDTO (GetByIdsAsync 1 2 example_ctx1) =
     Some \<lparr>EventRoomDTO_Id = 7, EventRoomDTO_EventId = 1, EventRoomDTO_RoomId = 2,
           EventRoomDTO_Event = Some \<lparr>EventDTO_Id = 1, EventDTO_Name = ''Tech Conference''\<rparr>,
           EventRoomDTO_Room = Some \<lparr>RoomDTO_Id = 2, RoomDTO_Name = ''Room 101''\<rparr>\<rparr>"
  by (simp add: GetEventRoomAsync_def GetByIdsAsync_def Include_def example_ctx_def
      example_ctx1_def Map_EventRoomDTO_def Map_EventDTO_def Map_RoomDTO_def)

text \<open>
  C5, as amended.  On a store with no pending change, \<open>DeleteEventRoomAsync\<close> throws
  \<open>NotFoundException\<close>, with the text
  \<open>EventRoom with EventId=<eventId> and RoomId=<roomId> not found\<close>, exactly when no
  association has the key; otherwise it removes the association with that key and
  returns.  A second call on the store the first one leaves throws that exception.
\<close>

theorem delete_removes_or_not_found:
  assumes "ChangeTracker ctx = []"
  shows "DeleteEventRoomAsync services eventId roomId ctx =
    (if \<exists>er \<in> set (EventRooms ctx). EventRoom_EventId er = eventId \<and> EventRoom_RoomId er = roomId
     then (ctx\<lparr>EventRooms :=
                 filter (\<lambda>er. \<not> (EventRoom_EventId er = eventId \<and> EventRoom_RoomId er = roomId))
                   (EventRooms ctx)\<rparr>, Inr ())
     else (ctx, Inl (NotFoundException
             (''EventRoom with EventId='' @ Guid_ToString eventId @
              '' and RoomId='' @ Guid_ToString roomId @ '' not found'')))) \<and>
    snd (DeleteEventRoomAsync services eventId roomId
           (fst (DeleteEventRoomAsync services eventId roomId ctx))) =
      Inl (NotFoundException
             (''EventRoom with EventId='' @ Guid_ToString eventId @
              '' and RoomId='' @ Guid_ToString roomId @ '' not found''))"
proof -
  let ?key = "\<lambda>er. EventRoom_EventId er = eventId \<and> EventRoom_RoomId er = roomId"
  let ?ctx' = "fst (DeleteEventRoomAsync services eventId roomId ctx)"
  note first = delete_on_store [OF assms, of eventId roomId]
  have ct: "ChangeTracker ?ctx' = []"
    using assms by (simp add: first)
  have "\<not> (\<exists>er \<in> set (EventRooms ?ctx'). ?key er)"
    by (auto simp: first)
  then have "snd (DeleteEventRoomAsync services eventId roomId ?ctx') =
      Inl (NotFoundException
             (''EventRoom with EventId='' @ Guid_ToString eventId @
              '' and RoomId='' @ Guid_ToString roomId @ '' not found''))"
    by (simp only: delete_on_store [OF ct] if_False snd_conv)
  with first show ?thesis
    by (simp only: simp_thms)
qed

theorem delete_removes_or_not_found_witness:
  "ChangeTracker example_ctx1 = [] \<and>
   DeleteEventRoomAsync services 1 2 example_ctx1 = (example_ctx1\<lparr>EventRooms := []\<rparr>, Inr ()) \<and>
   snd (DeleteEventRoomAsync services 1 2 (fst (DeleteEventRoomAsync services 1 2 example_ctx1))) =
     Inl (NotFoundException
            (''EventRoom with EventId='' @ Guid_ToString 1 @
             '' and RoomId='' @ Guid_ToString 2 @ '' not found''))"
proof -
  have ct: "ChangeTracker example_ctx1 = []"
    by (simp add: example_ctx1_def)
  note inst = delete_removes_or_not_found [OF ct, of 1 2]
  from inst have "DeleteEventRoomAsync services 1 2 example_ctx1 =
      (example_ctx1\<lparr>EventRooms := []\<rparr>, Inr ())"
    by (simp add: example_ctx1_def)
  with inst ct show ?thesis
    by blast
qed

text \<open>
  C5, as stated, fails on the text of the exception: deleting the pair (1, 2) from a store
  without associations does not throw \<open>NotFoundException("EventRoom")\<close>.
\<close>

theorem delete_not_found_text_counterexample:
  "EventRooms example_ctx = [] \<and>
   snd (DeleteEventRoomAsync services 1 2 example_ctx) =
     Inl (NotFoundException
       (''EventRoom with EventId=00000000-0000-0000-0000-000000000001'' @
        '' and RoomId=00000000-0000-0000-0000-000000000002 not found'')) \<and>
   snd (DeleteEventRoomAsync services 1 2 example_ctx) \<noteq> Inl (NotFoundException ''EventRoom'')"
  by (simp add: DeleteEventRoomAsync_def example_ctx_def Guid_ToString_1 Guid_ToString_2)

text \<open>
  C6.  \<open>GetFilteredEventRoomsAsync\<close> counts the stored records that match the filter in
  the sense of the specification; every item it returns is such a record (mapped, with
  \<open>Event\<close> and \<open>Room\<close> resolved); when the first page is as long as the table, a stored
  record is returned exactly when it matches; a filter with both fields unset matches
  every record, and all of them are counted.
\<close>

theorem listFiltered_matching:
  assumes "snd (GetFilteredEventRoomsAsync services u f ctx) = Inr r"
  shows "TotalCount r = int (length (filter (spec_matches f) (EventRooms ctx))) \<and>
    (\<forall>dto \<in> set (Items r). \<exists>er \<in> set (EventRooms ctx). spec_matches f er \<and>
        dto = Map_EventRoomDTO (Include [Nav_Event, Nav_Room] ctx er)) \<and>
    (EventRoomFilterDTO_PageNumber f = 1 \<and>
     int (length (EventRooms ctx)) \<le> EventRoomFilterDTO_PageSize f \<longrightarrow>
       (\<forall>er \<in> set (EventRooms ctx).
          Map_EventRoomDTO (Include [Nav_Event, Nav_Room] ctx er) \<in> set (Items r) \<longleftrightarrow>
          spec_matches f er)) \<and>
    (EventRoomFilterDTO_EventId f = None \<and> EventRoomFilterDTO_RoomId f = None \<longrightarrow>
       (\<forall>er. spec_matches f er) \<and> TotalCount r = int (length (EventRooms ctx)))"
proof -
  let ?M = "filter (spec_matches f) (EventRooms ctx)"
  let ?out = "\<lambda>er. Map_EventRoomDTO (Include [Nav_Event, Nav_Room] ctx er)"
  let ?p = "EventRoomFilterDTO_PageNumber f" and ?n = "EventRoomFilterDTO_PageSize f"
  from assms have r: "r = projr (snd (GetFilteredEventRoomsAsync services u f ctx))"
    by simp
  have items: "Items r = map ?out (take (nat ?n) (drop (nat ((?p - 1) * ?n)) (sort_key EventRoom_Id ?M)))"
    and count: "TotalCount r = int (length ?M)"
    unfolding r listFiltered_on_store by simp_all
  have sub: "\<forall>dto \<in> set (Items r). \<exists>er \<in> set (EventRooms ctx). spec_matches f er \<and> dto = ?out er"
  proof
    fix dto assume "dto \<in> set (Items r)"
    then obtain er where "er \<in> set (take (nat ?n) (drop (nat ((?p - 1) * ?n)) (sort_key EventRoom_Id ?M)))"
      and "dto = ?out er"
      unfolding items by auto
    moreover then have "er \<in> set (sort_key EventRoom_Id ?M)"
      by (meson in_set_dropD in_set_takeD)
    ultimately show "\<exists>er \<in> set (EventRooms ctx). spec_matches f er \<and> dto = ?out er"
      by auto
  qed
  have full: "\<forall>er \<in> set (EventRooms ctx). ?out er \<in> set (Items r) \<longleftrightarrow> spec_matches f er"
    if "?p = 1" and "int (length (EventRooms ctx)) \<le> ?n"
  proof
    fix er assume er: "er \<in> set (EventRooms ctx)"
    have "length ?M \<le> length (EventRooms ctx)"
      by simp
    with that have "length ?M \<le> nat ?n"
      by linarith
    with that have "take (nat ?n) (drop (nat ((?p - 1) * ?n)) (sort_key EventRoom_Id ?M)) =
        sort_key EventRoom_Id ?M"
      by simp
    then have set_items: "set (Items r) = ?out ` set ?M"
      unfolding items by simp
    show "?out er \<in> set (Items r) \<longleftrightarrow> spec_matches f er"
    proof
      assume "?out er \<in> set (Items r)"
      then obtain er' where "er' \<in> set ?M" and eq: "?out er = ?out er'"
        unfolding set_items by auto
      from eq have "EventRoom_EventId er = EventRoom_EventId er'"
        and "EventRoom_RoomId er = EventRoom_RoomId er'"
        by (simp_all add: Map_EventRoomDTO_def Include_def)
      with \<open>er' \<in> set ?M\<close> show "spec_matches f er"
        by (auto simp: spec_matches_def split: option.splits)
    next
      assume "spec_matches f er"
      with er show "?out er \<in> set (Items r)"
        unfolding set_items by simp
    qed
  qed
  have "(\<forall>er. spec_matches f er) \<and> TotalCount r = int (length (EventRooms ctx))"
    if "EventRoomFilterDTO_EventId f = None \<and> EventRoomFilterDTO_RoomId f = None"
  proof -
    from that have "\<forall>er. spec_matches f er"
      by (simp add: spec_matches_def)
    then show ?thesis
      by (simp add: count)
  qed
  with count sub full show ?thesis
    by blast
qed

theorem listFiltered_matching_witness:
  "snd (GetFilteredEventRoomsAsync services 0 example_filter example_ctx1) =
     Inr \<lparr>Items = [\<lparr>EventRoomDTO_Id = 7, EventRoomDTO_EventId = 1, EventRoomDTO_RoomId = 2,
            EventRoomDTO_Event = Some \<lparr>EventDTO_Id = 1, EventDTO_Name = ''Tech Conference''\<rparr>,
            EventRoomDTO_Room = Some \<lparr>RoomDTO_Id = 2, RoomDTO_Name = ''Room 101''\<rparr>\<rparr>],
          PageIndex = 1, PageSize = 10, TotalCount = 1, TotalPages = 1,
          HasPreviousPage = False, HasNextPage = False\<rparr> \<and>
   int (length (filter (spec_matches example_filter) (EventRooms example_ctx1))) = 1"
proof -
  have r: "snd (GetFilteredEventRoomsAsync services 0 example_filter example_ctx1) =
     Inr \<lparr>Items = [\<lparr>EventRoomDTO_Id = 7, EventRoomDTO_EventId = 1, EventRoomDTO_RoomId = 2,
            EventRoomDTO_Event = Some \<lparr>EventDTO_Id = 1, EventDTO_Name = ''Tech Conference''\<rparr>,
            EventRoomDTO_Room = Some \<lparr>RoomDTO_Id = 2, RoomDTO_Name = ''Room 101''\<rparr>\<rparr>],
          PageIndex = 1, PageSize = 10, TotalCount = 1, TotalPages = 1,
          HasPreviousPage = False, HasNextPage = False\<rparr>"
    by (simp add: listFiltered_on_store total_pages_div example_filter_def example_ctx1_def
        spec_matches_def Include_def Map_EventRoomDTO_def Map_EventDTO_def Map_RoomDTO_def)
  from listFiltered_matching [OF r] r show ?thesis
    by simp
qed

text \<open>
  C7.  For a page number \<open>p\<close> and a page size \<open>n\<close> of at least 1,
  \<open>GetFilteredEventRoomsAsync\<close> returns a result in which \<open>TotalCount\<close> is the number of
  matching records, \<open>TotalPages\<close> is the ceiling of \<open>TotalCount / n\<close>, the items are the
  matching records in the order of their \<open>Id\<close> from offset \<open>(p - 1) * n\<close>, at most \<open>n\<close> of
  them, \<open>HasPreviousPage\<close> is \<open>p > 1\<close> and \<open>HasNextPage\<close> is \<open>p < TotalPages\<close>.  A page
  beyond \<open>TotalPages\<close> has no item, and the counts are the same for every page number.
\<close>

theorem listFiltered_pagination:
  assumes p: "p = EventRoomFilterDTO_PageNumber f" and "1 \<le> p"
    and n: "n = EventRoomFilterDTO_PageSize f" and "1 \<le> n"
    and M: "matching = filter (spec_matches f) (EventRooms ctx)"
  shows "\<exists>r. GetFilteredEventRoomsAsync services u f ctx = (ctx, Inr r) \<and>
      TotalCount r = int (length matching) \<and>
      TotalPages r = \<lceil>real (length matching) / real_of_int n\<rceil> \<and>
      Items r = map (\<lambda>er. Map_EventRoomDTO (Include [Nav_Event, Nav_Room] ctx er))
                  (take (nat n) (drop (nat ((p - 1) * n)) (sort_key EventRoom_Id matching))) \<and>
      int (length (Items r)) \<le> n \<and>
      HasPreviousPage r = (1 < p) \<and>
      HasNextPage r = (p < TotalPages r) \<and>
      (TotalPages r < p \<longrightarrow> Items r = []) \<and>
      PageIndex r = p \<and> PageSize r = n \<and>
      (\<forall>p'. \<exists>r'. GetFilteredEventRoomsAsync services u
                     (f\<lparr>EventRoomFilterDTO_PageNumber := p'\<rparr>) ctx = (ctx, Inr r') \<and>
                   TotalCount r' = TotalCount r \<and> TotalPages r' = TotalPages r \<and>
                   PageSize r' = PageSize r)"
proof -
  let ?out = "\<lambda>er. Map_EventRoomDTO (Include [Nav_Event, Nav_Room] ctx er)"
  let ?pages = "\<lceil>real (length matching) / real_of_int n\<rceil>"
  let ?page = "take (nat n) (drop (nat ((p - 1) * n)) (sort_key EventRoom_Id matching))"
  define r where "r = projr (snd (GetFilteredEventRoomsAsync services u f ctx))"
  from \<open>1 \<le> n\<close> have n0: "n \<noteq> 0" by simp
  have pages: "int_of_double u (Math_Ceiling (divide_double (int (length matching)) n)) = ?pages"
    by (simp add: total_pages_ceiling [OF n0])
  have res: "GetFilteredEventRoomsAsync services u f ctx = (ctx, Inr r)"
    unfolding r_def listFiltered_on_store by simp
  have fields: "TotalCount r = int (length matching)" "TotalPages r = ?pages"
    "Items r = map ?out ?page" "HasPreviousPage r = (1 < p)" "HasNextPage r = (p < ?pages)"
    "PageIndex r = p" "PageSize r = n"
    unfolding r_def listFiltered_on_store
    by (simp_all add: p [symmetric] n [symmetric] M [symmetric] pages)
  have len: "int (length (Items r)) \<le> n"
    using \<open>1 \<le> n\<close> by (simp add: fields)
  have beyond: "Items r = []" if "?pages < p"
  proof -
    from that have "?pages \<le> p - 1" by simp
    with \<open>1 \<le> n\<close> have "?pages * n \<le> (p - 1) * n"
      by (intro mult_right_mono) simp_all
    moreover have "int (length matching) \<le> \<lceil>real_of_int (int (length matching)) / real_of_int n\<rceil> * n"
      using \<open>1 \<le> n\<close> by (intro ceiling_pages_cover) simp
    ultimately have "length (sort_key EventRoom_Id matching) \<le> nat ((p - 1) * n)"
      by simp
    then show ?thesis
      by (simp add: fields)
  qed
  have same: "\<exists>r'. GetFilteredEventRoomsAsync services u
                     (f\<lparr>EventRoomFilterDTO_PageNumber := p'\<rparr>) ctx = (ctx, Inr r') \<and>
                   TotalCount r' = TotalCount r \<and> TotalPages r' = TotalPages r \<and>
                   PageSize r' = PageSize r" for p'
    unfolding listFiltered_on_store fields
    by (simp add: n [symmetric] M [symmetric] pages)
  from res fields len beyond same show ?thesis
    by (intro exI [of _ r]) simp
qed

theorem listFiltered_pagination_witness:
  "GetFilteredEventRoomsAsync services 0 example_page2 example_ctx3 =
     (example_ctx3,
      Inr \<lparr>Items = [\<lparr>EventRoomDTO_Id = 9, EventRoomDTO_EventId = 1, EventRoomDTO_RoomId = 2,
             EventRoomDTO_Event = Some \<lparr>EventDTO_Id = 1, EventDTO_Name = ''Tech Conference''\<rparr>,
             EventRoomDTO_Room = Some \<lparr>RoomDTO_Id = 2, RoomDTO_Name = ''Room 101''\<rparr>\<rparr>],
           PageIndex = 2, PageSize = 2, TotalCount = 3, TotalPages = 2,
           HasPreviousPage = True, HasNextPage = False\<rparr>) \<and>
   \<lceil>real (length (filter (spec_matches example_page2) (EventRooms example_ctx3))) / real_of_int 2\<rceil> = 2"
proof -
  have r: "GetFilteredEventRoomsAsync services 0 example_page2 example_ctx3 =
     (example_ctx3,
      Inr \<lparr>Items = [\<lparr>EventRoomDTO_Id = 9, EventRoomDTO_EventId = 1, EventRoomDTO_RoomId = 2,
             EventRoomDTO_Event = Some \<lparr>EventDTO_Id = 1, EventDTO_Name = ''Tech Conference''\<rparr>,
             EventRoomDTO_Room = Some \<lparr>RoomDTO_Id = 2, RoomDTO_Name = ''Room 101''\<rparr>\<rparr>],
           PageIndex = 2, PageSize = 2, TotalCount = 3, TotalPages = 2,
           HasPreviousPage = True, HasNextPage = False\<rparr>)"
    by (simp add: listFiltered_on_store total_pages_div example_page2_def example_ctx3_def
        spec_matches_def Include_def Map_EventRoomDTO_def Map_EventDTO_def Map_RoomDTO_def)
  have "2 = EventRoomFilterDTO_PageNumber example_page2" "2 = EventRoomFilterDTO_PageSize example_page2"
    by (simp_all add: example_page2_def)
  from listFiltered_pagination [OF this(1) _ this(2) _ refl, where ctx = example_ctx3 and u = 0] r
  show ?thesis
    by auto
qed



text \<open>
  C9.  \<open>GetFilteredEventRoomsAsync\<close> returns for every filter, whatever its page number
  and page size: both are passed to \<open>GetAllAsync\<close> and copied into the result as they
  are.  With a page size of 0 the quotient is not a finite \<open>double\<close>, and \<open>TotalPages\<close> is
  the unspecified value of its conversion.
\<close>

theorem listFiltered_no_validation:
  "\<exists>r. GetFilteredEventRoomsAsync uc u f s = (s, Inr r) \<and>
       PageIndex r = EventRoomFilterDTO_PageNumber f \<and>
       PageSize r = EventRoomFilterDTO_PageSize f \<and>
       Items r = map Map_EventRoomDTO
         (eventRoomRepository_GetAllAsync uc
            (\<lambda>er. (EventRoomFilterDTO_EventId f = None \<or>
                    Some (EventRoom_EventId er) = EventRoomFilterDTO_EventId f) \<and>
                   (EventRoomFilterDTO_RoomId f = None \<or>
                    Some (EventRoom_RoomId er) = EventRoomFilterDTO_RoomId f))
            False (EventRoomFilterDTO_PageNumber f) (EventRoomFilterDTO_PageSize f)
            [Nav_Event, Nav_Room] EventRoom_Id False s) \<and>
       (EventRoomFilterDTO_PageSize f = 0 \<longrightarrow>
          (\<forall>q. divide_double (TotalCount r) (EventRoomFilterDTO_PageSize f) \<noteq> Finite q) \<and>
          TotalPages r = u)"
  by (auto simp: GetFilteredEventRoomsAsync_def Let_def divide_double_def)

theorem listFiltered_no_validation_witness:
  "GetFilteredEventRoomsAsync services (- 2147483648)
     \<lparr>EventRoomFilterDTO_EventId = None, EventRoomFilterDTO_RoomId = None,
      EventRoomFilterDTO_PageNumber = - 3, EventRoomFilterDTO_PageSize = 0\<rparr> example_ctx1 =
   (example_ctx1,
    Inr \<lparr>Items = [], PageIndex = - 3, PageSize = 0, TotalCount = 1,
         TotalPages = - 2147483648, HasPreviousPage = False, HasNextPage = False\<rparr>)"
  using listFiltered_no_validation [of services "- 2147483648"
     "\<lparr>EventRoomFilterDTO_EventId = None, EventRoomFilterDTO_RoomId = None,
      EventRoomFilterDTO_PageNumber = - 3, EventRoomFilterDTO_PageSize = 0\<rparr>" example_ctx1]
  by (auto simp: example_ctx1_def Repository_GetAllAsync_def GetFilteredEventRoomsAsync_def Let_def divide_double_def)

text \<open>
  C10.  When the three checks pass, \<open>CreateEventRoomAsync\<close> returns the mapping of what
  \<open>FindOneAsync\<close> finds, under the composite key, in the store that \<open>AddAsync\<close> and
  \<open>SaveChangesAsync\<close> leave: the mapping of that record when there is one, and \<open>null\<close>
  (here \<open>None\<close>), not an exception, when there is none.
\<close>

theorem create_returns_reread:
  assumes "eventRepository_FindOneAsync uc
             (\<lambda>e. Event_Id e = CreateEventRoomDTO_EventId dto) s \<noteq> None"
    and "roomRepository_FindOneAsync uc
             (\<lambda>r. Room_Id r = CreateEventRoomDTO_RoomId dto) s \<noteq> None"
    and "eventRoomRepository_FindOneAsync uc
             (\<lambda>er. EventRoom_EventId er = CreateEventRoomDTO_EventId dto \<and>
                    EventRoom_RoomId er = CreateEventRoomDTO_RoomId dto) s = None"
    and "s2 = unitOfWork_SaveChangesAsync uc (eventRoomRepository_AddAsync uc
               \<lparr>EventRoom_Id = 0,
                EventRoom_EventId = CreateEventRoomDTO_EventId dto,
                EventRoom_RoomId = CreateEventRoomDTO_RoomId dto,
                EventRoom_Event = None, EventRoom_Room = None\<rparr> s)"
  shows "CreateEventRoomAsync uc dto s =
           (s2, Inr (case eventRoomRepository_FindOneAsync uc
                            (\<lambda>er. EventRoom_EventId er = CreateEventRoomDTO_EventId dto \<and>
                                   EventRoom_RoomId er = CreateEventRoomDTO_RoomId dto) s2 of
                       None \<Rightarrow> None
                     | Some created \<Rightarrow> Some (Map_EventRoomDTO created)))"
  using assms
  by (auto simp: CreateEventRoomAsync_def Let_def Map_nullable_def split: option.splits)

theorem create_returns_reread_witness:
  "CreateEventRoomAsync stub_useCase example_dto () = ((), Inr None) \<and>
   snd (CreateEventRoomAsync services example_dto example_ctx) =
     Inr (Some \<lparr>EventRoomDTO_Id = 7, EventRoomDTO_EventId = 1, EventRoomDTO_RoomId = 2,
                 EventRoomDTO_Event = None, EventRoomDTO_Room = None\<rparr>)"
  using create_returns_reread [of stub_useCase example_dto "()" "()"]
    create_returns_reread [of services example_dto example_ctx
       "SaveChangesAsync (Repository_AddAsync
               \<lparr>EventRoom_Id = 0,
                EventRoom_EventId = 1,
                EventRoom_RoomId = 2,
                EventRoom_Event = None, EventRoom_Room = None\<rparr> example_ctx)"]
  by (simp add: stub_useCase_def example_dto_def example_ctx_def Repository_AddAsync_def
      SaveChangesAsync_def Map_EventRoomDTO_def)

end
